theory Spec2Isabelle
  imports Complex_Main "HOL-Library.Signed_Division"
begin

section \<open>Data model of bitmap.cpp\<close>

text \<open>
  C++ \<open>int\<close> values are modelled as mathematical integers: signed overflow is undefined
  behaviour in C++ and lies outside the model. C++ \<open>float\<close> values (colours, point
  positions, opacity, squeeze factor) are modelled as exact reals: rounding and the
  8-bit quantisation of a framebuffer are outside the model.
\<close>

datatype Vec2 = Vec2 real real

datatype Vec4 = Vec4 real real real real

datatype IntRect = IntRect (rect_x: int) (rect_y: int) (rect_w: int) (rect_h: int)

datatype FloatRect = FloatRect (frect_x: real) (frect_y: real) (frect_w: real) (frect_h: real)

text \<open>Modelled from the spec: the default-constructed colour \<open>Vec4()\<close> (etype.h is not
  part of the sources) is transparent black, (0,0,0,0).\<close>

definition Vec4_default :: Vec4 where
  "Vec4_default = Vec4 0 0 0 0"

text \<open>The content of a texture or of a CPU pixel buffer: a colour per coordinate. Only
  the coordinates inside the texture's width and height are meaningful.\<close>

type_synonym pixels = "int \<times> int \<Rightarrow> Vec4"

text \<open>A texture/framebuffer pair \<open>TEXFBO\<close>: a handle (the texture and its framebuffer
  share one identity here) and the dimensions. The pixels live in the GPU store
  \<open>vram\<close> of the global state, under that handle.\<close>

record TEXFBO =
  tex_id :: nat
  tex_width :: int
  tex_height :: int

datatype PixelFormat = ABGR8888 | ARGB8888 | OtherFormat nat

record SDL_Surface =
  surf_id :: nat
  surf_w :: int
  surf_h :: int
  surf_format :: PixelFormat
  surf_pixels :: pixels

record Font =
  font_face :: nat
  font_color :: Vec4

subsection \<open>Exceptions\<close>

text \<open>
  \<open>Exception kind message\<close> is the exception class thrown by the source, with the three
  kinds bitmap.cpp uses. The other constructors stand for failures raised by code that
  is not part of the sources: \<open>DisposedError\<close> by the macro \<open>GUARD_DISPOSED\<close>,
  \<open>ResourceError\<close> by the texture pool, \<open>CollaboratorError\<close> by the file system; and
  \<open>NullDereference\<close> for a crash on a null surface the source does not check for.
\<close>

datatype ExceptionType = RGSSError | MKXPError | SDLError

datatype error =
    Exception ExceptionType string
  | DisposedError
  | ResourceError
  | CollaboratorError string
  | NullDereference

text \<open>The names the specification gives to the exceptions thrown in bitmap.cpp.\<close>

definition UnsupportedOperation :: error where
  "UnsupportedOperation = Exception MKXPError ''Operation not supported for mega surfaces''"

definition InvalidArgument :: error where
  "InvalidArgument = Exception RGSSError ''failed to create bitmap''"

definition LoadError :: "string \<Rightarrow> error" where
  "LoadError txt = Exception SDLError (''SDL: '' @ txt)"

subsection \<open>The texture pool\<close>

text \<open>Modelled from the spec: the texture pool (texpool.h is not part of the sources).
  \<open>request\<close> hands out a texture of exactly the requested size, reusing a released one of
  that size when there is one, and fails with \<open>ResourceError\<close> when nothing can be
  allocated (\<open>budget\<close> counts the fresh allocations that still succeed); \<open>release\<close> gives
  a texture back to the pool.\<close>

record TexPool =
  pooled :: "TEXFBO list"
  nextId :: nat
  budget :: nat

fun take_pooled :: "int \<Rightarrow> int \<Rightarrow> TEXFBO list \<Rightarrow> (TEXFBO \<times> TEXFBO list) option" where
  "take_pooled w h [] = None"
| "take_pooled w h (t # ts) =
     (if tex_width t = w \<and> tex_height t = h then Some (t, ts)
      else (case take_pooled w h ts of
              None \<Rightarrow> None
            | Some (t', rest) \<Rightarrow> Some (t', t # rest)))"

definition request :: "int \<Rightarrow> int \<Rightarrow> TexPool \<Rightarrow> error + (TEXFBO \<times> TexPool)" where
  "request w h pool =
     (case take_pooled w h (pooled pool) of
        Some (t, rest) \<Rightarrow> Inr (t, pool\<lparr>pooled := rest\<rparr>)
      | None \<Rightarrow>
          if budget pool = 0 then Inl ResourceError
          else Inr (\<lparr>tex_id = nextId pool, tex_width = w, tex_height = h\<rparr>,
                    pool\<lparr>nextId := Suc (nextId pool), budget := budget pool - 1\<rparr>))"

definition release :: "TEXFBO \<Rightarrow> TexPool \<Rightarrow> TexPool" where
  "release t pool = pool\<lparr>pooled := t # pooled pool\<rparr>"

subsection \<open>Global state and external collaborators\<close>

text \<open>
  The part of \<open>gState\<close>/\<open>glState\<close> the operations change: the pixel store of the GPU, the
  texture pool, and the SDL surfaces that are currently allocated on the CPU side.
\<close>

record GState =
  vram :: "nat \<Rightarrow> pixels"
  texPool :: TexPool
  liveSurfaces :: "nat list"
  nextSurface :: nat
  defaultFont :: Font

text \<open>
  The collaborators the specification treats as black boxes, taken as parameters:
  platform limits and configuration, the file system, the image decoder, the font
  rasteriser, and the result of each shader-driven draw call on the pixels of the
  destination texture. A decoder or rasteriser result is the surface to be allocated
  (its \<open>surf_id\<close> is assigned on allocation). \<open>IMG_Load_RW\<close> returns the decoder's
  error text (what \<open>SDL_GetError\<close> reports) when it yields no surface; the two
  rasteriser entry points \<open>TTF_RenderUTF8_Solid\<close> and \<open>TTF_RenderUTF8_Blended\<close> are one
  function of the flag \<open>solidFonts\<close>.

  Each draw-call parameter stands for the calls between binding the shader and popping
  the viewport: \<open>scissorClear\<close> for \<open>glClear\<close> under the scissor box of
  \<open>BitmapPrivate::fillRect\<close>, \<open>gradientQuad\<close> for lines 353 to 381, \<open>bltQuad\<close> for the
  fragment pipeline of lines 284 to 311 (it receives the rectangles, the normalised
  opacity, and the size and pixels of the source), \<open>hueQuad\<close> for lines 466 to 490 and
  \<open>textQuad\<close> for lines 559 to 601. The scratch textures of \<open>gState\<close> these pipelines
  stage their input in, and the push/pop stacks of \<open>glState\<close>, are internal to them and
  are not part of the state. The copy constructor, the destructor and the accessors
  \<open>getGLTypes\<close>, \<open>megaSurface\<close>, \<open>bindTex\<close> and the font attribute are not modelled.
\<close>

record Collab =
  maxTexSize :: int
  solidFonts :: bool
  openRead :: "string \<Rightarrow> error + string"
  IMG_Load_RW :: "string \<Rightarrow> string + SDL_Surface"
  SDL_ConvertSurfaceFormat :: "SDL_Surface \<Rightarrow> PixelFormat \<Rightarrow> SDL_Surface option"
  TTF_RenderUTF8 :: "bool \<Rightarrow> Font \<Rightarrow> string \<Rightarrow> SDL_Surface option"
  TTF_SizeUTF8 :: "Font \<Rightarrow> string \<Rightarrow> int \<times> int"
  scissorClear :: "IntRect \<Rightarrow> Vec4 \<Rightarrow> int \<Rightarrow> int \<Rightarrow> pixels \<Rightarrow> pixels"
  gradientQuad :: "IntRect \<Rightarrow> Vec4 \<Rightarrow> Vec4 \<Rightarrow> bool \<Rightarrow> int \<Rightarrow> int \<Rightarrow> pixels \<Rightarrow> pixels"
  bltQuad :: "IntRect \<Rightarrow> IntRect \<Rightarrow> real \<Rightarrow> int \<times> int \<times> pixels \<Rightarrow> int \<Rightarrow> int \<Rightarrow> pixels \<Rightarrow> pixels"
  hueQuad :: "real \<Rightarrow> int \<Rightarrow> int \<Rightarrow> pixels \<Rightarrow> pixels"
  textQuad :: "FloatRect \<Rightarrow> SDL_Surface \<Rightarrow> real \<Rightarrow> int \<Rightarrow> int \<Rightarrow> pixels \<Rightarrow> pixels"

definition alloc_surface :: "SDL_Surface \<Rightarrow> GState \<Rightarrow> SDL_Surface \<times> GState" where
  "alloc_surface img g =
     (img\<lparr>surf_id := nextSurface g\<rparr>,
      g\<lparr>liveSurfaces := nextSurface g # liveSurfaces g, nextSurface := Suc (nextSurface g)\<rparr>)"

definition SDL_FreeSurface :: "SDL_Surface \<Rightarrow> GState \<Rightarrow> GState" where
  "SDL_FreeSurface surf g = g\<lparr>liveSurfaces := remove1 (surf_id surf) (liveSurfaces g)\<rparr>"

subsection \<open>The surface\<close>

record BitmapPrivate =
  tex :: TEXFBO
  pointArray :: "(Vec2 \<times> Vec4) list"
  font :: Font
  megaSurface :: "SDL_Surface option"

text \<open>Modelled from the spec: the base class of \<open>Bitmap\<close> (disposable.h is not part of
  the sources) holds the \<open>disposed\<close> flag tested by \<open>GUARD_DISPOSED\<close> and emits the
  \<open>modified\<close> signal; \<open>modifiedCount\<close> counts the emissions.\<close>

record Bitmap =
  p :: BitmapPrivate
  disposed :: bool
  modifiedCount :: nat

definition modified :: "Bitmap \<Rightarrow> Bitmap" where
  "modified b = b\<lparr>modifiedCount := Suc (modifiedCount b)\<rparr>"

definition BitmapPrivate_new :: "GState \<Rightarrow> BitmapPrivate" where
  "BitmapPrivate_new g =
     \<lparr>tex = \<lparr>tex_id = 0, tex_width = 0, tex_height = 0\<rparr>, pointArray = [],
      font = defaultFont g, megaSurface = None\<rparr>"

text \<open>The result of a member function: what it returns or throws, and the global state
  and the surface as it leaves them (also when it throws).\<close>

type_synonym 'a result = "(error + 'a) \<times> GState \<times> Bitmap"

definition outcome :: "'a result \<Rightarrow> error + 'a" where
  "outcome r = fst r"

definition gstate_of :: "'a result \<Rightarrow> GState" where
  "gstate_of r = fst (snd r)"

definition bitmap_of :: "'a result \<Rightarrow> Bitmap" where
  "bitmap_of r = snd (snd r)"

definition state_of :: "'a result \<Rightarrow> GState \<times> Bitmap" where
  "state_of r = snd r"

text \<open>The pixels of a surface's texture.\<close>

definition contents :: "GState \<times> Bitmap \<Rightarrow> pixels" where
  "contents s = vram (fst s) (tex_id (tex (p (snd s))))"

section \<open>Helpers that are not part of the sources\<close>

text \<open>Modelled from the spec: \<open>clamp\<close> (util.h is not part of the sources) clamps a value
  to the closed interval from \<open>lo\<close> to \<open>hi\<close>.\<close>

definition clamp :: "int \<Rightarrow> int \<Rightarrow> int \<Rightarrow> int" where
  "clamp v lo hi = (if v < lo then lo else if v > hi then hi else v)"

text \<open>Modelled from the spec: \<open>wrapRange\<close> (util.h is not part of the sources) normalises
  a value into the closed interval from \<open>lo\<close> to \<open>hi\<close>, here by wrapping around.\<close>

definition wrapRange :: "int \<Rightarrow> int \<Rightarrow> int \<Rightarrow> int" where
  "wrapRange v lo hi = lo + (v - lo) mod (hi - lo + 1)"

text \<open>Modelled from the spec: the point batch (\<open>PointArray\<close>, quadarray.h is not part of
  the sources) is the sequence of appended points; its draw call, under a viewport that
  covers the whole texture and with blending disabled, overwrites for each point, in the
  order of appending, the pixel the point lies in, and drops points outside the texture.\<close>

definition in_bounds :: "int \<Rightarrow> int \<Rightarrow> int \<times> int \<Rightarrow> bool" where
  "in_bounds w h xy = (0 \<le> fst xy \<and> fst xy < w \<and> 0 \<le> snd xy \<and> snd xy < h)"

fun point_pixel :: "Vec2 \<Rightarrow> int \<times> int" where
  "point_pixel (Vec2 fx fy) = (\<lfloor>fx\<rfloor>, \<lfloor>fy\<rfloor>)"

definition draw_point :: "int \<Rightarrow> int \<Rightarrow> Vec2 \<times> Vec4 \<Rightarrow> pixels \<Rightarrow> pixels" where
  "draw_point w h pt px =
     (if in_bounds w h (point_pixel (fst pt)) then px(point_pixel (fst pt) := snd pt) else px)"

definition PointArray_draw :: "int \<Rightarrow> int \<Rightarrow> (Vec2 \<times> Vec4) list \<Rightarrow> pixels \<Rightarrow> pixels" where
  "PointArray_draw w h pts px = fold (draw_point w h) pts px"

text \<open>Modelled from the spec: \<open>glClear\<close> on a bound framebuffer without scissor test sets
  every pixel of the texture to the clear colour; \<open>TEX::uploadImage\<close> replaces the
  texture's pixels by those of the image; \<open>FBO::getPixel\<close> reads one pixel back.\<close>

definition glClear :: "int \<Rightarrow> int \<Rightarrow> Vec4 \<Rightarrow> pixels \<Rightarrow> pixels" where
  "glClear w h col px = (\<lambda>xy. if in_bounds w h xy then col else px xy)"

definition TEX_uploadImage :: "int \<Rightarrow> int \<Rightarrow> pixels \<Rightarrow> pixels \<Rightarrow> pixels" where
  "TEX_uploadImage w h src px = (\<lambda>xy. if in_bounds w h xy then src xy else px xy)"

definition FBO_getPixel :: "int \<Rightarrow> int \<Rightarrow> pixels \<Rightarrow> Vec4" where
  "FBO_getPixel x y px = px (x, y)"

section \<open>BitmapPrivate\<close>

definition flushPoints :: "GState \<times> BitmapPrivate \<Rightarrow> GState \<times> BitmapPrivate" where
  "flushPoints s =
     (case s of (g, bp) \<Rightarrow>
        if length (pointArray bp) = 0 then (g, bp)
        else (g\<lparr>vram := (vram g)(tex_id (tex bp) :=
                  PointArray_draw (tex_width (tex bp)) (tex_height (tex bp)) (pointArray bp)
                    (vram g (tex_id (tex bp))))\<rparr>,
              bp\<lparr>pointArray := []\<rparr>))"

definition p_fillRect :: "Collab \<Rightarrow> IntRect \<Rightarrow> Vec4 \<Rightarrow> GState \<times> BitmapPrivate
    \<Rightarrow> GState \<times> BitmapPrivate" where
  "p_fillRect c rect color s =
     (case flushPoints s of (g, bp) \<Rightarrow>
        (g\<lparr>vram := (vram g)(tex_id (tex bp) :=
             scissorClear c rect color (tex_width (tex bp)) (tex_height (tex bp))
               (vram g (tex_id (tex bp))))\<rparr>,
         bp))"

definition ensureFormat :: "Collab \<Rightarrow> SDL_Surface \<Rightarrow> PixelFormat \<Rightarrow> GState
    \<Rightarrow> SDL_Surface option \<times> GState" where
  "ensureFormat c surf format g =
     (if surf_format surf = format then (Some surf, g)
      else (case SDL_ConvertSurfaceFormat c surf format of
              None \<Rightarrow> (None, SDL_FreeSurface surf g)
            | Some conv \<Rightarrow>
                (case alloc_surface conv g of
                   (surfConv, g1) \<Rightarrow> (Some surfConv, SDL_FreeSurface surf g1))))"

section \<open>Bitmap: queries and flush\<close>

definition width :: "Bitmap \<Rightarrow> error + int" where
  "width b =
     (if disposed b then Inl DisposedError
      else (case megaSurface (p b) of
              Some m \<Rightarrow> Inr (surf_w m)
            | None \<Rightarrow> Inr (tex_width (tex (p b)))))"

definition height :: "Bitmap \<Rightarrow> error + int" where
  "height b =
     (if disposed b then Inl DisposedError
      else (case megaSurface (p b) of
              Some m \<Rightarrow> Inr (surf_h m)
            | None \<Rightarrow> Inr (tex_height (tex (p b)))))"

definition rect :: "Bitmap \<Rightarrow> error + IntRect" where
  "rect b =
     (case width b of
        Inl e \<Rightarrow> Inl e
      | Inr w \<Rightarrow> (case height b of Inl e \<Rightarrow> Inl e | Inr h \<Rightarrow> Inr (IntRect 0 0 w h)))"

definition flush :: "GState \<times> Bitmap \<Rightarrow> GState \<times> Bitmap" where
  "flush s =
     (case s of (g, b) \<Rightarrow>
        if disposed b then (g, b)
        else if megaSurface (p b) \<noteq> None then (g, b)
        else (case flushPoints (g, p b) of (g1, bp1) \<Rightarrow> (g1, b\<lparr>p := bp1\<rparr>)))"


section \<open>Bitmap: blit\<close>

text \<open>
  The source surface of a blit is only read: its \<open>disposed\<close> flag (by \<open>width\<close> and
  \<open>height\<close>), its dimensions and its texture handle, whose pixels are looked up in the
  pixel store after the destination has been flushed. The source is neither flushed
  nor tested for mega mode by the code.
\<close>

definition stretchBlt :: "Collab \<Rightarrow> IntRect \<Rightarrow> Bitmap \<Rightarrow> IntRect \<Rightarrow> int
    \<Rightarrow> GState \<times> Bitmap \<Rightarrow> unit result" where
  "stretchBlt c destRect source sourceRect opacity s =
     (case s of (g, b) \<Rightarrow>
        if disposed b then (Inl DisposedError, g, b)
        else if megaSurface (p b) \<noteq> None then (Inl UnsupportedOperation, g, b)
        else if clamp opacity 0 255 = 0 then (Inr (), g, b)
        else (case flush (g, b) of (g1, b1) \<Rightarrow>
          (case width source of
             Inl e \<Rightarrow> (Inl e, g1, b1)
           | Inr sw \<Rightarrow>
          (case height source of
             Inl e \<Rightarrow> (Inl e, g1, b1)
           | Inr sh \<Rightarrow>
               (Inr (),
                g1\<lparr>vram := (vram g1)(tex_id (tex (p b1)) :=
                      bltQuad c destRect sourceRect (real_of_int (clamp opacity 0 255) / 255)
                        (sw, sh, vram g1 (tex_id (tex (p source))))
                        (tex_width (tex (p b1))) (tex_height (tex (p b1)))
                        (vram g1 (tex_id (tex (p b1)))))\<rparr>,
                modified b1)))))"

definition blt :: "Collab \<Rightarrow> int \<Rightarrow> int \<Rightarrow> Bitmap \<Rightarrow> IntRect \<Rightarrow> int
    \<Rightarrow> GState \<times> Bitmap \<Rightarrow> unit result" where
  "blt c x y source srcRect opacity s =
     stretchBlt c (IntRect x y (rect_w srcRect) (rect_h srcRect)) source srcRect opacity s"

section \<open>Bitmap: fill, gradient, clear\<close>

definition fillRect :: "Collab \<Rightarrow> IntRect \<Rightarrow> Vec4 \<Rightarrow> GState \<times> Bitmap \<Rightarrow> unit result" where
  "fillRect c r color s =
     (case s of (g, b) \<Rightarrow>
        if disposed b then (Inl DisposedError, g, b)
        else if megaSurface (p b) \<noteq> None then (Inl UnsupportedOperation, g, b)
        else (case p_fillRect c r color (g, p b) of
                (g1, bp1) \<Rightarrow> (Inr (), g1, modified (b\<lparr>p := bp1\<rparr>))))"

definition gradientFillRect :: "Collab \<Rightarrow> IntRect \<Rightarrow> Vec4 \<Rightarrow> Vec4 \<Rightarrow> bool
    \<Rightarrow> GState \<times> Bitmap \<Rightarrow> unit result" where
  "gradientFillRect c r color1 color2 vertical s =
     (case s of (g, b) \<Rightarrow>
        if disposed b then (Inl DisposedError, g, b)
        else if megaSurface (p b) \<noteq> None then (Inl UnsupportedOperation, g, b)
        else (case flush (g, b) of (g1, b1) \<Rightarrow>
               (Inr (),
                g1\<lparr>vram := (vram g1)(tex_id (tex (p b1)) :=
                      gradientQuad c r color1 color2 vertical
                        (tex_width (tex (p b1))) (tex_height (tex (p b1)))
                        (vram g1 (tex_id (tex (p b1)))))\<rparr>,
                modified b1)))"

definition clearRect :: "Collab \<Rightarrow> IntRect \<Rightarrow> GState \<times> Bitmap \<Rightarrow> unit result" where
  "clearRect c r s =
     (case s of (g, b) \<Rightarrow>
        if disposed b then (Inl DisposedError, g, b)
        else if megaSurface (p b) \<noteq> None then (Inl UnsupportedOperation, g, b)
        else (case p_fillRect c r Vec4_default (g, p b) of
                (g1, bp1) \<Rightarrow> (Inr (), g1, modified (b\<lparr>p := bp1\<rparr>))))"

definition clear :: "GState \<times> Bitmap \<Rightarrow> unit result" where
  "clear s =
     (case s of (g, b) \<Rightarrow>
        if disposed b then (Inl DisposedError, g, b)
        else if megaSurface (p b) \<noteq> None then (Inl UnsupportedOperation, g, b)
        else (Inr (),
              g\<lparr>vram := (vram g)(tex_id (tex (p b)) :=
                   glClear (tex_width (tex (p b))) (tex_height (tex (p b))) Vec4_default
                     (vram g (tex_id (tex (p b)))))\<rparr>,
              modified (b\<lparr>p := (p b)\<lparr>pointArray := []\<rparr>\<rparr>)))"

section \<open>Bitmap: pixel access\<close>

definition getPixel :: "int \<Rightarrow> int \<Rightarrow> GState \<times> Bitmap \<Rightarrow> Vec4 result" where
  "getPixel x y s =
     (case s of (g, b) \<Rightarrow>
        if disposed b then (Inl DisposedError, g, b)
        else if megaSurface (p b) \<noteq> None then (Inl UnsupportedOperation, g, b)
        else (case width b of
                Inl e \<Rightarrow> (Inl e, g, b)
              | Inr w \<Rightarrow>
             (case height b of
                Inl e \<Rightarrow> (Inl e, g, b)
              | Inr h \<Rightarrow>
                  if x < 0 \<or> y < 0 \<or> x \<ge> w \<or> y \<ge> h then (Inr Vec4_default, g, b)
                  else (case flush (g, b) of (g1, b1) \<Rightarrow>
                         (Inr (FBO_getPixel x y (vram g1 (tex_id (tex (p b1))))), g1, b1)))))"

definition setPixel :: "int \<Rightarrow> int \<Rightarrow> Vec4 \<Rightarrow> GState \<times> Bitmap \<Rightarrow> unit result" where
  "setPixel x y color s =
     (case s of (g, b) \<Rightarrow>
        if disposed b then (Inl DisposedError, g, b)
        else if megaSurface (p b) \<noteq> None then (Inl UnsupportedOperation, g, b)
        else (Inr (), g,
              modified (b\<lparr>p := (p b)\<lparr>pointArray :=
                pointArray (p b) @ [(Vec2 (real_of_int x + 1/2) (real_of_int y + 1/2), color)]\<rparr>\<rparr>)))"

section \<open>Bitmap: hue change\<close>

text \<open>
  The C++ remainder \<open>hue % 360\<close> truncates towards zero: \<open>smod\<close>. The hue shader's draw
  call reads the old texture and writes the new one; the old texture is released after
  it. A failing pool request throws after the flush.
\<close>

definition hueAdjust :: "int \<Rightarrow> real" where
  "hueAdjust hue = - ((pi * 2) / 360) * real_of_int hue"

definition hueChange :: "Collab \<Rightarrow> int \<Rightarrow> GState \<times> Bitmap \<Rightarrow> unit result" where
  "hueChange c hue s =
     (case s of (g, b) \<Rightarrow>
        if disposed b then (Inl DisposedError, g, b)
        else if megaSurface (p b) \<noteq> None then (Inl UnsupportedOperation, g, b)
        else if hue smod 360 = 0 then (Inr (), g, b)
        else (case flush (g, b) of (g1, b1) \<Rightarrow>
          (case width b1 of
             Inl e \<Rightarrow> (Inl e, g1, b1)
           | Inr w \<Rightarrow>
          (case height b1 of
             Inl e \<Rightarrow> (Inl e, g1, b1)
           | Inr h \<Rightarrow>
          (case request w h (texPool g1) of
             Inl e \<Rightarrow> (Inl e, g1, b1)
           | Inr (newTex, pool1) \<Rightarrow>
               (Inr (),
                g1\<lparr>vram := (vram g1)(tex_id newTex :=
                      hueQuad c (hueAdjust (wrapRange hue 0 359)) w h
                        (vram g1 (tex_id (tex (p b1))))),
                    texPool := release (tex (p b1)) pool1\<rparr>,
                modified (b1\<lparr>p := (p b1)\<lparr>tex := newTex\<rparr>\<rparr>)))))))"

section \<open>Bitmap: text\<close>

text \<open>Modelled from the spec: the alignment constants of bitmap.h (not part of the
  sources): three distinct values \<open>Left\<close>, \<open>Center\<close>, \<open>Right\<close> of the \<open>int\<close> parameter
  \<open>align\<close>; every other value is treated like \<open>Left\<close> by the \<open>default\<close> label.\<close>

definition Left :: int where
  "Left = 0"

definition Center :: int where
  "Center = 1"

definition Right :: int where
  "Right = 2"

text \<open>
  The layout of lines 530 to 557, from the rectangle and the size \<open>tw\<close>, \<open>th\<close> of the
  rendered text. The C++ division of integers truncates towards zero: \<open>sdiv\<close>. The
  squeeze factor is a quotient of floats; for \<open>tw = 0\<close> the float quotient is infinite
  or not a number while the real quotient is 0, so the model of it is meaningful for
  \<open>tw > 0\<close> only (the rasteriser renders no surface of width 0).
\<close>

definition text_alignX :: "IntRect \<Rightarrow> int \<Rightarrow> int \<Rightarrow> int" where
  "text_alignX r tw align =
     (let alignX =
            (if align = Center then rect_x r + (rect_w r - tw) sdiv 2
             else if align = Right then rect_x r + (rect_w r - tw)
             else rect_x r)
      in if alignX < rect_x r then rect_x r else alignX)"

definition text_alignY :: "IntRect \<Rightarrow> int \<Rightarrow> int" where
  "text_alignY r th = rect_y r + (rect_h r - th) sdiv 2"

definition text_squeeze :: "IntRect \<Rightarrow> int \<Rightarrow> real" where
  "text_squeeze r tw =
     (let squeeze = real_of_int (rect_w r) / real_of_int tw
      in if squeeze > 1 then 1 else squeeze)"

definition text_posRect :: "IntRect \<Rightarrow> int \<Rightarrow> int \<Rightarrow> int \<Rightarrow> FloatRect" where
  "text_posRect r tw th align =
     FloatRect (real_of_int (text_alignX r tw align)) (real_of_int (text_alignY r th))
       (real_of_int tw * text_squeeze r tw) (real_of_int th)"

text \<open>
  \<open>drawText\<close>: the rasteriser's surface is allocated, converted, drawn through the blit
  shader at \<open>text_posRect\<close> with the font colour's alpha as opacity, and freed. A null
  surface from the rasteriser or from the conversion is dereferenced by the source.
\<close>

definition font_alpha :: "Font \<Rightarrow> real" where
  "font_alpha f = (case font_color f of Vec4 r g b a \<Rightarrow> a)"

definition drawText :: "Collab \<Rightarrow> IntRect \<Rightarrow> string \<Rightarrow> int \<Rightarrow> GState \<times> Bitmap
    \<Rightarrow> unit result" where
  "drawText c r str align s =
     (case s of (g, b) \<Rightarrow>
        if disposed b then (Inl DisposedError, g, b)
        else if megaSurface (p b) \<noteq> None then (Inl UnsupportedOperation, g, b)
        else if str = [] then (Inr (), g, b)
        else (case flush (g, b) of (g1, b1) \<Rightarrow>
          (case TTF_RenderUTF8 c (solidFonts c) (font (p b1)) str of
             None \<Rightarrow> (Inl NullDereference, g1, b1)
           | Some rendered \<Rightarrow>
          (case alloc_surface rendered g1 of (txtSurf0, g2) \<Rightarrow>
          (case ensureFormat c txtSurf0 ARGB8888 g2 of
             (None, g3) \<Rightarrow> (Inl NullDereference, g3, b1)
           | (Some txtSurf, g3) \<Rightarrow>
               (Inr (),
                SDL_FreeSurface txtSurf
                  (g3\<lparr>vram := (vram g3)(tex_id (tex (p b1)) :=
                        textQuad c (text_posRect r (surf_w txtSurf) (surf_h txtSurf) align)
                          txtSurf (font_alpha (font (p b1)))
                          (tex_width (tex (p b1))) (tex_height (tex (p b1)))
                          (vram g3 (tex_id (tex (p b1)))))\<rparr>),
                modified b1))))))"

definition textSize :: "Collab \<Rightarrow> string \<Rightarrow> GState \<times> Bitmap \<Rightarrow> IntRect result" where
  "textSize c str s =
     (case s of (g, b) \<Rightarrow>
        if disposed b then (Inl DisposedError, g, b)
        else if megaSurface (p b) \<noteq> None then (Inl UnsupportedOperation, g, b)
        else (case TTF_SizeUTF8 c (font (p b)) str of
                (w, h) \<Rightarrow> (Inr (IntRect 0 0 w h), g, b)))"

section \<open>Bitmap: construction\<close>

definition Bitmap_from_size :: "int \<Rightarrow> int \<Rightarrow> GState \<Rightarrow> (error + Bitmap) \<times> GState" where
  "Bitmap_from_size w h g =
     (if w \<le> 0 \<or> h \<le> 0 then (Inl (Exception RGSSError ''failed to create bitmap''), g)
      else (case request w h (texPool g) of
              Inl e \<Rightarrow> (Inl e, g)
            | Inr (t, pool1) \<Rightarrow>
                (case clear (g\<lparr>texPool := pool1\<rparr>,
                             \<lparr>p = (BitmapPrivate_new g)\<lparr>tex := t\<rparr>, disposed = False,
                              modifiedCount = 0\<rparr>) of
                   (Inl e, g2, b2) \<Rightarrow> (Inl e, g2)
                 | (Inr u, g2, b2) \<Rightarrow> (Inr b2, g2))))"

definition Bitmap_from_file :: "Collab \<Rightarrow> string \<Rightarrow> GState \<Rightarrow> (error + Bitmap) \<times> GState" where
  "Bitmap_from_file c filename g =
     (case openRead c filename of
        Inl e \<Rightarrow> (Inl e, g)
      | Inr ops \<Rightarrow>
     (case IMG_Load_RW c ops of
        Inl sdl_error \<Rightarrow> (Inl (Exception SDLError (''SDL: '' @ sdl_error)), g)
      | Inr decoded \<Rightarrow>
     (case alloc_surface decoded g of (imgSurf0, g0) \<Rightarrow>
     (case ensureFormat c imgSurf0 ABGR8888 g0 of
        (None, g1) \<Rightarrow> (Inl NullDereference, g1)
      | (Some imgSurf, g1) \<Rightarrow>
          if surf_w imgSurf > maxTexSize c \<or> surf_h imgSurf > maxTexSize c
          then (Inr \<lparr>p = (BitmapPrivate_new g1)\<lparr>megaSurface := Some imgSurf\<rparr>,
                      disposed = False, modifiedCount = 0\<rparr>, g1)
          else (case request (surf_w imgSurf) (surf_h imgSurf) (texPool g1) of
                  Inl e \<Rightarrow> (Inl e, SDL_FreeSurface imgSurf g1)
                | Inr (t, pool1) \<Rightarrow>
                    (Inr \<lparr>p = (BitmapPrivate_new g1)\<lparr>tex := t\<rparr>, disposed = False,
                          modifiedCount = 0\<rparr>,
                     SDL_FreeSurface imgSurf
                       (g1\<lparr>texPool := pool1,
                           vram := (vram g1)(tex_id t :=
                             TEX_uploadImage (tex_width t) (tex_height t)
                               (surf_pixels imgSurf) (vram g1 (tex_id t)))\<rparr>)))))))"

section \<open>Sequences of calls and the specification's reading of clear\<close>


text \<open>
  The specification's description of what \<open>clear\<close> is equivalent to: flush the pending
  points, then clear the entire surface to transparent black. \<open>spec_clear_entire\<close> is the
  clearing step alone, which does not touch the point buffer.
\<close>

definition spec_clear_entire :: "GState \<times> Bitmap \<Rightarrow> unit result" where
  "spec_clear_entire s =
     (case s of (g, b) \<Rightarrow>
        if disposed b then (Inl DisposedError, g, b)
        else if megaSurface (p b) \<noteq> None then (Inl UnsupportedOperation, g, b)
        else (Inr (),
              g\<lparr>vram := (vram g)(tex_id (tex (p b)) :=
                   glClear (tex_width (tex (p b))) (tex_height (tex (p b))) Vec4_default
                     (vram g (tex_id (tex (p b)))))\<rparr>,
              modified b))"

definition spec_flush_then_clear :: "GState \<times> Bitmap \<Rightarrow> unit result" where
  "spec_flush_then_clear s = spec_clear_entire (flush s)"


text \<open>The allocator of SDL surfaces hands out fresh identities: every live surface was
  allocated before the next one.\<close>

definition surfaces_wf :: "GState \<Rightarrow> bool" where
  "surfaces_wf g = list_all (\<lambda>i. i < nextSurface g) (liveSurfaces g)"

section \<open>Concrete inputs\<close>

text \<open>
  A small platform, used to evaluate the operations on concrete inputs: textures of at
  most 4 by 4 pixels, shaders whose draw calls leave the pixels as they are, a decoder
  that knows three files, and a rasteriser that renders every character 6 pixels wide
  and 10 pixels high.
\<close>

definition demo_collab :: Collab where
  "demo_collab =
     \<lparr>maxTexSize = 4, solidFonts = False,
      openRead = (\<lambda>name. if name = ''missing.png'' then Inl (CollaboratorError ''no such file'') else Inr name),
      IMG_Load_RW = (\<lambda>bytes.
         if bytes = ''broken.png'' then Inl ''Unsupported image format''
         else if bytes = ''huge.png'' then
           Inr \<lparr>surf_id = 0, surf_w = 5, surf_h = 2, surf_format = ABGR8888,
                surf_pixels = (\<lambda>xy. Vec4 1 0 0 1)\<rparr>
         else Inr \<lparr>surf_id = 0, surf_w = 2, surf_h = 2, surf_format = ABGR8888,
                   surf_pixels = (\<lambda>xy. Vec4 0 1 0 1)\<rparr>),
      SDL_ConvertSurfaceFormat = (\<lambda>surf format. Some (surf\<lparr>surf_format := format\<rparr>)),
      TTF_RenderUTF8 = (\<lambda>solid f str.
         Some \<lparr>surf_id = 0, surf_w = 6 * int (length str), surf_h = 10, surf_format = ARGB8888,
               surf_pixels = (\<lambda>xy. font_color f)\<rparr>),
      TTF_SizeUTF8 = (\<lambda>f str. (6 * int (length str), 10)),
      scissorClear = (\<lambda>r col w h px. px),
      gradientQuad = (\<lambda>r c1 c2 v w h px. px),
      bltQuad = (\<lambda>dr sr opacity src w h px. px),
      hueQuad = (\<lambda>adj w h px. px),
      textQuad = (\<lambda>pr surf opacity w h px. px)\<rparr>"

definition demo_gstate :: GState where
  "demo_gstate =
     \<lparr>vram = (\<lambda>t xy. Vec4 1 1 1 1),
      texPool = \<lparr>pooled = [], nextId = 1, budget = 2\<rparr>,
      liveSurfaces = [], nextSurface = 0,
      defaultFont = \<lparr>font_face = 0, font_color = Vec4 1 1 1 1\<rparr>\<rparr>"

definition demo_bitmap :: Bitmap where
  "demo_bitmap =
     \<lparr>p = \<lparr>tex = \<lparr>tex_id = 0, tex_width = 2, tex_height = 2\<rparr>, pointArray = [],
           font = \<lparr>font_face = 0, font_color = Vec4 1 1 1 1\<rparr>, megaSurface = None\<rparr>,
      disposed = False, modifiedCount = 0\<rparr>"

definition demo_pending :: Bitmap where
  "demo_pending =
     \<lparr>p = \<lparr>tex = \<lparr>tex_id = 0, tex_width = 2, tex_height = 2\<rparr>,
           pointArray = [(Vec2 (1 / 2) (3 / 2), Vec4 1 0 0 1)],
           font = \<lparr>font_face = 0, font_color = Vec4 1 1 1 1\<rparr>, megaSurface = None\<rparr>,
      disposed = False, modifiedCount = 1\<rparr>"


definition demo_image :: SDL_Surface where
  "demo_image =
     \<lparr>surf_id = 0, surf_w = 5, surf_h = 2, surf_format = ABGR8888,
      surf_pixels = (\<lambda>xy. Vec4 1 0 0 1)\<rparr>"

definition demo_mega :: Bitmap where
  "demo_mega =
     \<lparr>p = \<lparr>tex = \<lparr>tex_id = 0, tex_width = 0, tex_height = 0\<rparr>, pointArray = [],
           font = \<lparr>font_face = 0, font_color = Vec4 1 1 1 1\<rparr>,
           megaSurface = Some demo_image\<rparr>,
      disposed = False, modifiedCount = 0\<rparr>"

definition demo_exhausted :: GState where
  "demo_exhausted =
     \<lparr>vram = (\<lambda>t xy. Vec4 1 1 1 1),
      texPool = \<lparr>pooled = [\<lparr>tex_id = 4, tex_width = 1, tex_height = 1\<rparr>], nextId = 5, budget = 0\<rparr>,
      liveSurfaces = [3], nextSurface = 7,
      defaultFont = \<lparr>font_face = 0, font_color = Vec4 1 1 1 1\<rparr>\<rparr>"

section \<open>Verified properties\<close>

subsection \<open>Blit\<close>

lemma clamp_range: "0 \<le> clamp v 0 255 \<and> clamp v 0 255 \<le> 255"
  by (simp add: clamp_def)

lemma clamp_idem: "clamp (clamp v 0 255) 0 255 = clamp v 0 255"
  by (simp add: clamp_def)

text \<open>
  Claim C3. \<open>stretchBlt\<close> works with the opacity clamped to the interval from 0 to 255:
  the clamped value lies in that interval and the call behaves as the call with the
  clamped value. When the clamped opacity is 0, \<open>stretchBlt\<close> (and \<open>blt\<close>, which calls it)
  returns with the global state and the surface exactly as they were: every pixel of the
  destination is unchanged and no \<open>modified\<close> signal has been emitted; on a live GPU
  surface it returns without error.
\<close>

theorem stretchBlt_opacity_zero:
  "0 \<le> clamp opacity 0 255 \<and> clamp opacity 0 255 \<le> 255
   \<and> stretchBlt c destRect source sourceRect opacity s
       = stretchBlt c destRect source sourceRect (clamp opacity 0 255) s
   \<and> (clamp opacity 0 255 = 0 \<longrightarrow>
        state_of (stretchBlt c destRect source sourceRect opacity s) = s
        \<and> state_of (blt c x y source sourceRect opacity s) = s
        \<and> contents (state_of (stretchBlt c destRect source sourceRect opacity s)) = contents s
        \<and> modifiedCount (bitmap_of (stretchBlt c destRect source sourceRect opacity s))
            = modifiedCount (snd s)
        \<and> (\<not> disposed (snd s) \<and> megaSurface (p (snd s)) = None \<longrightarrow>
             outcome (stretchBlt c destRect source sourceRect opacity s) = Inr ()))"
proof (intro conjI impI)
  show "stretchBlt c destRect source sourceRect opacity s
       = stretchBlt c destRect source sourceRect (clamp opacity 0 255) s"
    unfolding stretchBlt_def clamp_idem ..
next
  assume zero: "clamp opacity 0 255 = 0"
  have unchanged: "state_of (stretchBlt c dr source sourceRect opacity s) = s" for dr
    using zero by (cases s) (simp add: stretchBlt_def state_of_def)
  show "state_of (stretchBlt c destRect source sourceRect opacity s) = s"
    by (rule unchanged)
  show "state_of (blt c x y source sourceRect opacity s) = s"
    unfolding blt_def by (rule unchanged)
  show "contents (state_of (stretchBlt c destRect source sourceRect opacity s)) = contents s"
    by (simp only: unchanged)
  show "modifiedCount (bitmap_of (stretchBlt c destRect source sourceRect opacity s))
      = modifiedCount (snd s)"
    using unchanged [of destRect] by (simp add: bitmap_of_def state_of_def)
  show "outcome (stretchBlt c destRect source sourceRect opacity s) = Inr ()"
    if "\<not> disposed (snd s) \<and> megaSurface (p (snd s)) = None"
    using that zero by (cases s) (simp add: stretchBlt_def outcome_def)
qed (simp_all add: clamp_def)

theorem stretchBlt_opacity_zero_witness:
  "clamp (- 5) 0 255 = 0
   \<and> state_of (stretchBlt demo_collab (IntRect 0 0 1 1) demo_bitmap (IntRect 0 0 1 1) (- 5)
        (demo_gstate, demo_bitmap)) = (demo_gstate, demo_bitmap)
   \<and> outcome (stretchBlt demo_collab (IntRect 0 0 1 1) demo_bitmap (IntRect 0 0 1 1) (- 5)
        (demo_gstate, demo_bitmap)) = Inr ()"
proof -
  have zero: "clamp (- 5) 0 255 = 0"
    by (simp add: clamp_def)
  have live: "\<not> disposed (snd (demo_gstate, demo_bitmap))
      \<and> megaSurface (p (snd (demo_gstate, demo_bitmap))) = None"
    by (simp add: demo_bitmap_def)
  from stretchBlt_opacity_zero [of "- 5" demo_collab "IntRect 0 0 1 1" demo_bitmap
      "IntRect 0 0 1 1" "(demo_gstate, demo_bitmap)" 0 0] zero live
  show ?thesis by blast
qed

subsection \<open>Guards and flushing\<close>

lemma smod_eq_0_iff: "(hue smod 360 = 0) = (hue mod 360 = 0)" for hue :: int
proof -
  have "hue smod 360 = sgn hue * (\<bar>hue\<bar> mod 360)"
    by (simp add: signed_modulo_int_def)
  then have "(hue smod 360 = 0) = (hue = 0 \<or> \<bar>hue\<bar> mod 360 = 0)"
    by (simp add: sgn_if)
  also have "\<dots> = (360 dvd \<bar>hue\<bar>)"
    by (auto simp: mod_eq_0_iff_dvd)
  also have "\<dots> = (360 dvd hue)"
    by simp
  finally show ?thesis
    by (simp add: mod_eq_0_iff_dvd)
qed

lemma modified_p [simp]: "p (modified b) = p b"
  by (simp add: modified_def)

lemma flush_live:
  assumes "\<not> disposed b" "megaSurface (p b) = None"
  shows "pointArray (p (snd (flush (g, b)))) = []"
    and "tex (p (snd (flush (g, b)))) = tex (p b)"
    and "megaSurface (p (snd (flush (g, b)))) = None"
    and "disposed (snd (flush (g, b))) = disposed b"
    and "modifiedCount (snd (flush (g, b))) = modifiedCount b"
  using assms by (simp_all add: flush_def flushPoints_def split: prod.splits)

lemma from_file_mega:
  assumes "Bitmap_from_file c name g = (Inr b, g1)" and "megaSurface (p b) = Some m"
  shows "\<not> disposed b \<and> (maxTexSize c < surf_w m \<or> maxTexSize c < surf_h m)"
  using assms
  by (auto simp: Bitmap_from_file_def BitmapPrivate_new_def
      split: sum.splits prod.splits option.splits if_splits)

text \<open>
  Claim C2. On a live surface in mega mode, holding the CPU image \<open>m\<close>, every
  GPU-compositing operation (fill, gradient fill, clear of a rectangle and of the whole
  surface, pixel read and write, hue change, text drawing and measuring, and blit with
  the surface as destination) throws \<open>UnsupportedOperation\<close> and leaves the state as it
  was, whatever its arguments; \<open>width\<close> and \<open>height\<close> succeed and return the dimensions
  of the image. When the surface was loaded by \<open>Bitmap_from_file\<close>, that image is wider
  or taller than the maximal texture size.
\<close>

theorem mega_surface_unsupported:
  assumes "megaSurface (p b) = Some m" and "\<not> disposed b"
  shows "fillRect c r col (g, b) = (Inl UnsupportedOperation, g, b)
    \<and> gradientFillRect c r col col2 vertical (g, b) = (Inl UnsupportedOperation, g, b)
    \<and> clearRect c r (g, b) = (Inl UnsupportedOperation, g, b)
    \<and> clear (g, b) = (Inl UnsupportedOperation, g, b)
    \<and> getPixel x y (g, b) = (Inl UnsupportedOperation, g, b)
    \<and> setPixel x y col (g, b) = (Inl UnsupportedOperation, g, b)
    \<and> hueChange c hue (g, b) = (Inl UnsupportedOperation, g, b)
    \<and> drawText c r str align (g, b) = (Inl UnsupportedOperation, g, b)
    \<and> textSize c str (g, b) = (Inl UnsupportedOperation, g, b)
    \<and> stretchBlt c r source r2 opacity (g, b) = (Inl UnsupportedOperation, g, b)
    \<and> blt c x y source r2 opacity (g, b) = (Inl UnsupportedOperation, g, b)
    \<and> width b = Inr (surf_w m)
    \<and> height b = Inr (surf_h m)
    \<and> (Bitmap_from_file c name g0 = (Inr b, g1) \<longrightarrow>
          maxTexSize c < surf_w m \<or> maxTexSize c < surf_h m)"
  using assms from_file_mega [of c name g0 b g1 m]
  by (simp add: fillRect_def gradientFillRect_def clearRect_def clear_def getPixel_def
      setPixel_def hueChange_def drawText_def textSize_def stretchBlt_def blt_def
      width_def height_def)

theorem mega_surface_unsupported_witness:
  "Bitmap_from_file demo_collab ''huge.png'' demo_gstate
     = (Inr demo_mega, demo_gstate\<lparr>liveSurfaces := [0], nextSurface := 1\<rparr>)
   \<and> megaSurface (p demo_mega) = Some demo_image
   \<and> \<not> disposed demo_mega
   \<and> clear (demo_gstate, demo_mega) = (Inl UnsupportedOperation, demo_gstate, demo_mega)
   \<and> hueChange demo_collab 0 (demo_gstate, demo_mega)
        = (Inl UnsupportedOperation, demo_gstate, demo_mega)
   \<and> drawText demo_collab (IntRect 0 0 1 1) [] Left (demo_gstate, demo_mega)
        = (Inl UnsupportedOperation, demo_gstate, demo_mega)
   \<and> width demo_mega = Inr 5 \<and> height demo_mega = Inr 2
   \<and> maxTexSize demo_collab = 4"
proof -
  have loaded: "Bitmap_from_file demo_collab ''huge.png'' demo_gstate
     = (Inr demo_mega, demo_gstate\<lparr>liveSurfaces := [0], nextSurface := 1\<rparr>)"
    by (simp add: Bitmap_from_file_def demo_collab_def demo_gstate_def demo_mega_def
        demo_image_def alloc_surface_def ensureFormat_def BitmapPrivate_new_def)
  have mega: "megaSurface (p demo_mega) = Some demo_image" and live: "\<not> disposed demo_mega"
    by (simp_all add: demo_mega_def)
  have dims: "surf_w demo_image = 5" "surf_h demo_image = 2" "maxTexSize demo_collab = 4"
    by (simp_all add: demo_image_def demo_collab_def)
  from mega_surface_unsupported [OF mega live, where g = demo_gstate and c = demo_collab
      and hue = 0 and r = "IntRect 0 0 1 1" and str = "[]" and align = Left
      and name = "''huge.png''" and ?g0.0 = demo_gstate
      and ?g1.0 = "demo_gstate\<lparr>liveSurfaces := [0], nextSurface := 1\<rparr>"]
    loaded mega live dims
  show ?thesis by simp
qed

text \<open>
  Claim C1, as stated, fails: a \<open>stretchBlt\<close> with opacity 0 and a \<open>drawText\<close> of the empty
  string return before any flush, so a point buffered by \<open>setPixel\<close> is still pending
  after them.
\<close>

theorem pending_points_counterexample:
  "setPixel 0 1 (Vec4 1 0 0 1) (demo_gstate, demo_bitmap) = (Inr (), demo_gstate, demo_pending)
   \<and> outcome (stretchBlt demo_collab (IntRect 0 0 1 1) demo_bitmap (IntRect 0 0 1 1) 0
        (demo_gstate, demo_pending)) = Inr ()
   \<and> pointArray (p (bitmap_of (stretchBlt demo_collab (IntRect 0 0 1 1) demo_bitmap
        (IntRect 0 0 1 1) 0 (demo_gstate, demo_pending)))) \<noteq> []
   \<and> outcome (drawText demo_collab (IntRect 0 0 1 1) [] Left (demo_gstate, demo_pending)) = Inr ()
   \<and> pointArray (p (bitmap_of (drawText demo_collab (IntRect 0 0 1 1) [] Left
        (demo_gstate, demo_pending)))) \<noteq> []"
  by (simp add: setPixel_def stretchBlt_def drawText_def demo_bitmap_def demo_pending_def
      modified_def clamp_def outcome_def bitmap_of_def)

text \<open>
  Claim C1, amended. On a live GPU surface the buffer of pending points is empty after
  \<open>flush\<close>, \<open>fillRect\<close>, \<open>clearRect\<close>, \<open>gradientFillRect\<close> and \<open>clear\<close>, after \<open>getPixel\<close> at a
  coordinate inside the surface, after \<open>hueChange\<close> by a number of degrees that is not a
  multiple of 360, after \<open>drawText\<close> of a non-empty string, and after \<open>stretchBlt\<close> and
  \<open>blt\<close> with an opacity whose clamped value is not 0 (also when the operation throws
  after its flush). The calls that return early leave the buffer as it was: \<open>stretchBlt\<close>
  and \<open>blt\<close> with clamped opacity 0, \<open>drawText\<close> of the empty string, \<open>hueChange\<close> by a
  multiple of 360, \<open>getPixel\<close> outside the surface; so does \<open>textSize\<close>.
\<close>

theorem pending_points_flushed:
  assumes "\<not> disposed b" and "megaSurface (p b) = None"
  shows "pointArray (p (snd (flush (g, b)))) = []
    \<and> pointArray (p (bitmap_of (fillRect c r col (g, b)))) = []
    \<and> pointArray (p (bitmap_of (clearRect c r (g, b)))) = []
    \<and> pointArray (p (bitmap_of (gradientFillRect c r col col2 vertical (g, b)))) = []
    \<and> pointArray (p (bitmap_of (clear (g, b)))) = []
    \<and> (0 \<le> x \<and> x < tex_width (tex (p b)) \<and> 0 \<le> y \<and> y < tex_height (tex (p b)) \<longrightarrow>
          pointArray (p (bitmap_of (getPixel x y (g, b)))) = [])
    \<and> (hue mod 360 \<noteq> 0 \<longrightarrow> pointArray (p (bitmap_of (hueChange c hue (g, b)))) = [])
    \<and> (str \<noteq> [] \<longrightarrow> pointArray (p (bitmap_of (drawText c r str align (g, b)))) = [])
    \<and> (clamp opacity 0 255 \<noteq> 0 \<longrightarrow>
          pointArray (p (bitmap_of (stretchBlt c r source r2 opacity (g, b)))) = []
          \<and> pointArray (p (bitmap_of (blt c x y source r2 opacity (g, b)))) = [])
    \<and> (clamp opacity 0 255 = 0 \<longrightarrow>
          pointArray (p (bitmap_of (stretchBlt c r source r2 opacity (g, b)))) = pointArray (p b)
          \<and> pointArray (p (bitmap_of (blt c x y source r2 opacity (g, b)))) = pointArray (p b))
    \<and> pointArray (p (bitmap_of (drawText c r [] align (g, b)))) = pointArray (p b)
    \<and> (hue mod 360 = 0 \<longrightarrow>
          pointArray (p (bitmap_of (hueChange c hue (g, b)))) = pointArray (p b))
    \<and> (x < 0 \<or> y < 0 \<or> tex_width (tex (p b)) \<le> x \<or> tex_height (tex (p b)) \<le> y \<longrightarrow>
          pointArray (p (bitmap_of (getPixel x y (g, b)))) = pointArray (p b))
    \<and> pointArray (p (bitmap_of (textSize c str (g, b)))) = pointArray (p b)"
proof (intro conjI impI)
  note live = flush_live [OF assms, of g]
  show "pointArray (p (snd (flush (g, b)))) = []"
    by (rule live)
  show "pointArray (p (bitmap_of (fillRect c r col (g, b)))) = []"
    using assms
    by (simp add: fillRect_def p_fillRect_def flushPoints_def bitmap_of_def split: prod.splits)
  show "pointArray (p (bitmap_of (clearRect c r (g, b)))) = []"
    using assms
    by (simp add: clearRect_def p_fillRect_def flushPoints_def bitmap_of_def split: prod.splits)
  show "pointArray (p (bitmap_of (gradientFillRect c r col col2 vertical (g, b)))) = []"
    using assms live
    by (auto simp: gradientFillRect_def bitmap_of_def split: prod.splits)
  show "pointArray (p (bitmap_of (clear (g, b)))) = []"
    using assms by (simp add: clear_def bitmap_of_def)
  show "pointArray (p (bitmap_of (getPixel x y (g, b)))) = []"
    if "0 \<le> x \<and> x < tex_width (tex (p b)) \<and> 0 \<le> y \<and> y < tex_height (tex (p b))"
    using assms live that
    by (auto simp: getPixel_def width_def height_def bitmap_of_def split: prod.splits)
  show "pointArray (p (bitmap_of (hueChange c hue (g, b)))) = []"
    if "hue mod 360 \<noteq> 0"
  proof -
    from that have "hue smod 360 \<noteq> 0"
      by (simp add: smod_eq_0_iff)
    then show ?thesis
      using assms live
      by (auto simp: hueChange_def width_def height_def bitmap_of_def
          split: prod.splits sum.splits)
  qed
  show "pointArray (p (bitmap_of (drawText c r str align (g, b)))) = []"
    if "str \<noteq> []"
    using assms live that
    by (auto simp: drawText_def bitmap_of_def split: prod.splits option.splits)
  show "pointArray (p (bitmap_of (drawText c r [] align (g, b)))) = pointArray (p b)"
    using assms by (simp add: drawText_def bitmap_of_def)
  show "pointArray (p (bitmap_of (hueChange c hue (g, b)))) = pointArray (p b)"
    if "hue mod 360 = 0"
    using assms that by (simp add: hueChange_def smod_eq_0_iff bitmap_of_def)
  show "pointArray (p (bitmap_of (getPixel x y (g, b)))) = pointArray (p b)"
    if "x < 0 \<or> y < 0 \<or> tex_width (tex (p b)) \<le> x \<or> tex_height (tex (p b)) \<le> y"
    using assms that by (auto simp: getPixel_def width_def height_def bitmap_of_def)
  show "pointArray (p (bitmap_of (textSize c str (g, b)))) = pointArray (p b)"
    using assms by (simp add: textSize_def bitmap_of_def split: prod.splits)
next
  note live = flush_live [OF assms, of g]
  assume op: "clamp opacity 0 255 \<noteq> 0"
  have blit: "pointArray (p (bitmap_of (stretchBlt c dr source r2 opacity (g, b)))) = []" for dr
    using assms live op
    by (auto simp: stretchBlt_def bitmap_of_def split: prod.splits sum.splits)
  show "pointArray (p (bitmap_of (stretchBlt c r source r2 opacity (g, b)))) = []"
    by (rule blit)
  show "pointArray (p (bitmap_of (blt c x y source r2 opacity (g, b)))) = []"
    unfolding blt_def by (rule blit)
next
  assume op: "clamp opacity 0 255 = 0"
  have blit: "pointArray (p (bitmap_of (stretchBlt c dr source r2 opacity (g, b))))
      = pointArray (p b)" for dr
    using assms op by (simp add: stretchBlt_def bitmap_of_def)
  show "pointArray (p (bitmap_of (stretchBlt c r source r2 opacity (g, b)))) = pointArray (p b)"
    by (rule blit)
  show "pointArray (p (bitmap_of (blt c x y source r2 opacity (g, b)))) = pointArray (p b)"
    unfolding blt_def by (rule blit)
qed

theorem pending_points_flushed_witness:
  "\<not> disposed demo_pending \<and> megaSurface (p demo_pending) = None
   \<and> pointArray (p demo_pending) \<noteq> []
   \<and> pointArray (p (bitmap_of (fillRect demo_collab (IntRect 0 0 1 1) (Vec4 0 0 0 1)
        (demo_gstate, demo_pending)))) = []
   \<and> 0 \<le> (1::int) \<and> (1::int) < tex_width (tex (p demo_pending))
   \<and> pointArray (p (bitmap_of (getPixel 1 1 (demo_gstate, demo_pending)))) = []
   \<and> (90::int) mod 360 \<noteq> 0
   \<and> pointArray (p (bitmap_of (hueChange demo_collab 90 (demo_gstate, demo_pending)))) = []
   \<and> ''a'' \<noteq> []
   \<and> pointArray (p (bitmap_of (drawText demo_collab (IntRect 0 0 1 1) ''a'' Left
        (demo_gstate, demo_pending)))) = []
   \<and> clamp 128 0 255 \<noteq> 0
   \<and> pointArray (p (bitmap_of (stretchBlt demo_collab (IntRect 0 0 1 1) demo_bitmap
        (IntRect 0 0 1 1) 128 (demo_gstate, demo_pending)))) = []"
proof -
  have live: "\<not> disposed demo_pending" "megaSurface (p demo_pending) = None"
    by (simp_all add: demo_pending_def)
  have pending: "pointArray (p demo_pending) \<noteq> []"
    by (simp add: demo_pending_def)
  have args: "0 \<le> (1::int) \<and> (1::int) < tex_width (tex (p demo_pending))
      \<and> 0 \<le> (1::int) \<and> (1::int) < tex_height (tex (p demo_pending))"
    "(90::int) mod 360 \<noteq> 0" "''a'' \<noteq> []" "clamp 128 0 255 \<noteq> 0"
    by (simp_all add: demo_pending_def clamp_def)
  from pending_points_flushed [OF live, where g = demo_gstate and c = demo_collab
      and r = "IntRect 0 0 1 1" and col = "Vec4 0 0 0 1" and x = 1 and y = 1 and hue = 90
      and str = "''a''" and align = Left and opacity = 128 and source = demo_bitmap
      and ?r2.0 = "IntRect 0 0 1 1"] live pending args
  show ?thesis by blast
qed




subsection \<open>Buffered pixel writes\<close>




lemma draw_point_outside:
  "\<not> in_bounds w h xy \<Longrightarrow> draw_point w h pt px xy = px xy"
  by (auto simp: draw_point_def)


lemma PointArray_draw_outside:
  "\<not> in_bounds w h xy \<Longrightarrow> PointArray_draw w h pts px xy = px xy"
  unfolding PointArray_draw_def
  by (induction pts arbitrary: px) (simp_all add: draw_point_outside)



lemma getPixel_live:
  assumes "\<not> disposed b" and "megaSurface (p b) = None"
    and "in_bounds (tex_width (tex (p b))) (tex_height (tex (p b))) (x, y)"
  shows "getPixel x y (g, b)
    = (Inr (contents (flush (g, b)) (x, y)), flush (g, b))"
  using assms flush_live [OF assms(1,2), of g]
  by (auto simp: getPixel_def width_def height_def in_bounds_def contents_def FBO_getPixel_def
      split: prod.splits)





subsection \<open>Clear\<close>

lemma glClear_after_draw:
  "glClear w h col (PointArray_draw w h pts px) = glClear w h col px"
  by (rule ext) (simp add: glClear_def PointArray_draw_outside)

lemma clear_eq_flush_then_clear: "clear s = spec_flush_then_clear s"
proof (cases s)
  case (Pair g b)
  show ?thesis
  proof (cases "disposed b \<or> megaSurface (p b) \<noteq> None")
    case True
    then show ?thesis
      unfolding Pair
      by (auto simp: clear_def spec_flush_then_clear_def spec_clear_entire_def flush_def)
  next
    case live: False
    show ?thesis
    proof (cases "pointArray (p b) = []")
      case True
      then have "(p b)\<lparr>pointArray := []\<rparr> = p b"
        by (cases "p b") simp
      then have same: "b\<lparr>p := (p b)\<lparr>pointArray := []\<rparr>\<rparr> = b"
        by simp
      from live True show ?thesis
        unfolding Pair
        by (simp add: clear_def spec_flush_then_clear_def spec_clear_entire_def flush_def
            flushPoints_def same)
    next
      case False
      then show ?thesis
        unfolding Pair using live
        by (simp add: clear_def spec_flush_then_clear_def spec_clear_entire_def flush_def
            flushPoints_def glClear_after_draw modified_def)
    qed
  qed
qed

text \<open>
  Claim C5. \<open>clear\<close> empties the point buffer without drawing the points: on a live GPU
  surface its result is the same as on the surface with nothing pending, and every
  pixel inside the surface is transparent black afterwards. Its result (the outcome, the
  whole pixel store and the surface, hence the surface contents) is identical to that of
  flushing the pending points and then clearing the entire surface.
\<close>

theorem clear_discards_pending_points:
  "clear (g, b) = spec_flush_then_clear (g, b)
   \<and> contents (state_of (clear (g, b))) = contents (state_of (spec_flush_then_clear (g, b)))
   \<and> (\<not> disposed b \<and> megaSurface (p b) = None \<longrightarrow>
        outcome (clear (g, b)) = Inr ()
        \<and> pointArray (p (bitmap_of (clear (g, b)))) = []
        \<and> clear (g, b) = clear (g, b\<lparr>p := (p b)\<lparr>pointArray := []\<rparr>\<rparr>)
        \<and> (\<forall>xy. in_bounds (tex_width (tex (p b))) (tex_height (tex (p b))) xy \<longrightarrow>
              contents (state_of (clear (g, b))) xy = Vec4_default))"
proof (intro conjI impI allI)
  show eq: "clear (g, b) = spec_flush_then_clear (g, b)"
    by (rule clear_eq_flush_then_clear)
  show "contents (state_of (clear (g, b))) = contents (state_of (spec_flush_then_clear (g, b)))"
    by (simp only: eq)
next
  assume live: "\<not> disposed b \<and> megaSurface (p b) = None"
  then show "outcome (clear (g, b)) = Inr ()"
    by (simp add: clear_def outcome_def)
  from live show "pointArray (p (bitmap_of (clear (g, b)))) = []"
    by (simp add: clear_def bitmap_of_def)
  from live show "clear (g, b) = clear (g, b\<lparr>p := (p b)\<lparr>pointArray := []\<rparr>\<rparr>)"
    by (simp add: clear_def)
  fix xy
  assume "in_bounds (tex_width (tex (p b))) (tex_height (tex (p b))) xy"
  with live show "contents (state_of (clear (g, b))) xy = Vec4_default"
    by (simp add: clear_def contents_def state_of_def glClear_def)
qed

theorem clear_discards_pending_points_witness:
  "\<not> disposed demo_pending \<and> megaSurface (p demo_pending) = None
   \<and> pointArray (p demo_pending) \<noteq> []
   \<and> pointArray (p (bitmap_of (clear (demo_gstate, demo_pending)))) = []
   \<and> in_bounds (tex_width (tex (p demo_pending))) (tex_height (tex (p demo_pending))) (0, 1)
   \<and> contents (state_of (clear (demo_gstate, demo_pending))) (0, 1) = Vec4_default
   \<and> contents (state_of (spec_flush_then_clear (demo_gstate, demo_pending))) (0, 1)
       = Vec4_default
   \<and> contents (flush (demo_gstate, demo_pending)) (0, 1) = Vec4 1 0 0 1"
proof -
  have live: "\<not> disposed demo_pending \<and> megaSurface (p demo_pending) = None"
    and pending: "pointArray (p demo_pending) \<noteq> []"
    by (simp_all add: demo_pending_def)
  have inb: "in_bounds (tex_width (tex (p demo_pending))) (tex_height (tex (p demo_pending))) (0, 1)"
    by (simp add: demo_pending_def in_bounds_def)
  have flushed: "contents (flush (demo_gstate, demo_pending)) (0, 1) = Vec4 1 0 0 1"
    by (simp add: flush_def flushPoints_def contents_def demo_pending_def demo_gstate_def
        PointArray_draw_def draw_point_def in_bounds_def)
  from clear_discards_pending_points [of demo_gstate demo_pending] live pending inb flushed
  show ?thesis by metis
qed

subsection \<open>Construction\<close>

lemma take_pooled_dims:
  "take_pooled w h ts = Some (t, rest) \<Longrightarrow> tex_width t = w \<and> tex_height t = h"
  by (induction ts arbitrary: rest) (auto split: if_splits option.splits)

lemma request_dims:
  "request w h pool = Inr (t, pool1) \<Longrightarrow> tex_width t = w \<and> tex_height t = h"
  by (auto simp: request_def split: option.splits if_splits dest: take_pooled_dims)

lemma request_error:
  "request w h pool = Inl e \<Longrightarrow> e = ResourceError"
  by (auto simp: request_def split: option.splits if_splits)

text \<open>
  Claim C8. \<open>Bitmap_from_size\<close> throws \<open>InvalidArgument\<close>, and changes nothing, whenever
  the width or the height is not positive. For positive dimensions it requests a
  texture from the pool; when the pool fails, its error is passed on, and otherwise the
  result is a live GPU surface of exactly the requested width and height, with nothing
  pending and every pixel inside it transparent black, as \<open>getPixel\<close> reports.
\<close>

theorem Bitmap_from_size_checks:
  "(w \<le> 0 \<or> h \<le> 0 \<longrightarrow> Bitmap_from_size w h g = (Inl InvalidArgument, g))
   \<and> (0 < w \<and> 0 < h \<and> request w h (texPool g) = Inl e \<longrightarrow>
        Bitmap_from_size w h g = (Inl e, g))
   \<and> (0 < w \<and> 0 < h \<and> request w h (texPool g) = Inr (t, pool1) \<longrightarrow>
        (\<exists>b g1. Bitmap_from_size w h g = (Inr b, g1)
           \<and> width b = Inr w \<and> height b = Inr h
           \<and> \<not> disposed b \<and> megaSurface (p b) = None \<and> pointArray (p b) = []
           \<and> tex (p b) = t \<and> texPool g1 = pool1
           \<and> (\<forall>x y. in_bounds w h (x, y) \<longrightarrow>
                 contents (g1, b) (x, y) = Vec4_default
                 \<and> outcome (getPixel x y (g1, b)) = Inr Vec4_default)))"
proof (intro conjI impI)
  show "Bitmap_from_size w h g = (Inl InvalidArgument, g)" if "w \<le> 0 \<or> h \<le> 0"
    using that by (auto simp: Bitmap_from_size_def InvalidArgument_def)
  show "Bitmap_from_size w h g = (Inl e, g)"
    if "0 < w \<and> 0 < h \<and> request w h (texPool g) = Inl e"
    using that by (simp add: Bitmap_from_size_def)
next
  assume a: "0 < w \<and> 0 < h \<and> request w h (texPool g) = Inr (t, pool1)"
  then have dims: "tex_width t = w" "tex_height t = h"
    using request_dims by blast+
  let ?b0 = "\<lparr>p = (BitmapPrivate_new g)\<lparr>tex := t\<rparr>, disposed = False, modifiedCount = 0\<rparr>"
  let ?g1 = "g\<lparr>texPool := pool1,
      vram := (vram g)(tex_id t := glClear w h Vec4_default (vram g (tex_id t)))\<rparr>"
  let ?b = "modified (?b0\<lparr>p := (p ?b0)\<lparr>pointArray := []\<rparr>\<rparr>)"
  have made: "Bitmap_from_size w h g = (Inr ?b, ?g1)"
    using a dims by (simp add: Bitmap_from_size_def clear_def BitmapPrivate_new_def)
  have live: "\<not> disposed ?b" "megaSurface (p ?b) = None"
    by (simp_all add: modified_def BitmapPrivate_new_def)
  have empty: "pointArray (p ?b) = []" and t: "tex (p ?b) = t"
    by (simp_all add: modified_def)
  have size: "width ?b = Inr w" "height ?b = Inr h"
    using dims by (simp_all add: width_def height_def modified_def BitmapPrivate_new_def)
  have px: "contents (?g1, ?b) (x, y) = Vec4_default
      \<and> outcome (getPixel x y (?g1, ?b)) = Inr Vec4_default"
    if inb: "in_bounds w h (x, y)" for x y
  proof -
    have c: "contents (?g1, ?b) (x, y) = Vec4_default"
      using inb by (simp add: contents_def modified_def glClear_def)
    have "flush (?g1, ?b) = (?g1, ?b)"
      by (simp add: flush_def flushPoints_def modified_def BitmapPrivate_new_def)
    moreover have "in_bounds (tex_width (tex (p ?b))) (tex_height (tex (p ?b))) (x, y)"
      using inb dims by (simp add: modified_def)
    ultimately have "getPixel x y (?g1, ?b) = (Inr (contents (?g1, ?b) (x, y)), ?g1, ?b)"
      using getPixel_live [OF live, of x y ?g1] by simp
    with c show ?thesis
      by (simp add: outcome_def)
  qed
  show "\<exists>b g1. Bitmap_from_size w h g = (Inr b, g1)
           \<and> width b = Inr w \<and> height b = Inr h
           \<and> \<not> disposed b \<and> megaSurface (p b) = None \<and> pointArray (p b) = []
           \<and> tex (p b) = t \<and> texPool g1 = pool1
           \<and> (\<forall>x y. in_bounds w h (x, y) \<longrightarrow>
                 contents (g1, b) (x, y) = Vec4_default
                 \<and> outcome (getPixel x y (g1, b)) = Inr Vec4_default)"
    using made live empty t size px
    by (intro exI [of _ ?b] exI [of _ ?g1]) simp
qed

theorem Bitmap_from_size_checks_witness:
  "Bitmap_from_size 0 5 demo_gstate = (Inl InvalidArgument, demo_gstate)
   \<and> Bitmap_from_size (- 1) (- 1) demo_gstate = (Inl InvalidArgument, demo_gstate)
   \<and> request 2 3 (texPool demo_gstate)
       = Inr (\<lparr>tex_id = 1, tex_width = 2, tex_height = 3\<rparr>,
              \<lparr>pooled = [], nextId = 2, budget = 1\<rparr>)
   \<and> (case Bitmap_from_size 2 3 demo_gstate of
         (Inl e, g1) \<Rightarrow> False
       | (Inr b, g1) \<Rightarrow>
           width b = Inr 2 \<and> height b = Inr 3 \<and> pointArray (p b) = []
           \<and> contents (g1, b) (1, 2) = Vec4_default
           \<and> outcome (getPixel 1 2 (g1, b)) = Inr Vec4_default)"
proof -
  have req: "request 2 3 (texPool demo_gstate)
       = Inr (\<lparr>tex_id = 1, tex_width = 2, tex_height = 3\<rparr>,
              \<lparr>pooled = [], nextId = 2, budget = 1\<rparr>)"
    by (simp add: request_def demo_gstate_def)
  have inb: "in_bounds 2 3 (1, 2)"
    by (simp add: in_bounds_def)
  note zero = Bitmap_from_size_checks [of 0 5 demo_gstate]
  note neg = Bitmap_from_size_checks [of "- 1" "- 1" demo_gstate]
  from Bitmap_from_size_checks [of 2 3 demo_gstate _ "\<lparr>tex_id = 1, tex_width = 2, tex_height = 3\<rparr>"
      "\<lparr>pooled = [], nextId = 2, budget = 1\<rparr>"] req
  obtain b g1 where made: "Bitmap_from_size 2 3 demo_gstate = (Inr b, g1)"
    and props: "width b = Inr 2" "height b = Inr 3" "pointArray (p b) = []"
    and px: "\<forall>x y. in_bounds 2 3 (x, y) \<longrightarrow>
                 contents (g1, b) (x, y) = Vec4_default
                 \<and> outcome (getPixel x y (g1, b)) = Inr Vec4_default"
    by auto
  from px inb have "contents (g1, b) (1, 2) = Vec4_default
      \<and> outcome (getPixel 1 2 (g1, b)) = Inr Vec4_default"
    by blast
  with zero neg req made props show ?thesis
    by simp
qed

lemma alloc_then_ensureFormat:
  assumes "ensureFormat c (fst (alloc_surface img g)) format (snd (alloc_surface img g)) = (r, g1)"
  shows "texPool g1 = texPool g \<and> vram g1 = vram g
    \<and> (case r of
          None \<Rightarrow> liveSurfaces g1 = liveSurfaces g
        | Some s \<Rightarrow> liveSurfaces g1 = surf_id s # liveSurfaces g \<and> nextSurface g \<le> surf_id s)"
  using assms
  by (auto simp: ensureFormat_def alloc_surface_def SDL_FreeSurface_def
      split: if_splits option.splits)

lemma from_file_error_state:
  assumes "Bitmap_from_file c name g = (Inl e, g1)"
  shows "liveSurfaces g1 = liveSurfaces g \<and> texPool g1 = texPool g \<and> vram g1 = vram g"
proof (cases "openRead c name")
  case (Inl e1)
  with assms show ?thesis by (simp add: Bitmap_from_file_def)
next
  case ops: (Inr ops)
  show ?thesis
  proof (cases "IMG_Load_RW c ops")
    case (Inl msg)
    with assms ops show ?thesis by (simp add: Bitmap_from_file_def)
  next
    case img: (Inr img)
    obtain r g0 where ens:
      "ensureFormat c (fst (alloc_surface img g)) ABGR8888 (snd (alloc_surface img g)) = (r, g0)"
      by (cases "ensureFormat c (fst (alloc_surface img g)) ABGR8888 (snd (alloc_surface img g))")
    note st = alloc_then_ensureFormat [OF ens]
    from assms ops img ens st show ?thesis
      by (cases r)
        (auto simp: Bitmap_from_file_def SDL_FreeSurface_def
          split: prod.splits if_splits sum.splits)
  qed
qed

text \<open>
  Claim C9. When the decoder fails, \<open>Bitmap_from_file\<close> throws \<open>LoadError\<close> with the
  decoder's error text and changes nothing. When the image fits the maximal texture
  size and the request to the texture pool fails, the pool's error, \<open>ResourceError\<close>, is
  thrown after the decoded (and converted) surface has been freed: it was live before
  the request, and the set of live surfaces is again what it was before the call; with
  fresh surface identities the freed surface is not live any more. Whatever the failure,
  the live surfaces, the texture pool and the pixel store are as before the call.
\<close>

theorem Bitmap_from_file_failures:
  "(openRead c name = Inr ops \<and> IMG_Load_RW c ops = Inl txt \<longrightarrow>
      Bitmap_from_file c name g = (Inl (LoadError txt), g))
   \<and> (openRead c name = Inr ops \<and> IMG_Load_RW c ops = Inr img
        \<and> ensureFormat c (fst (alloc_surface img g)) ABGR8888 (snd (alloc_surface img g))
            = (Some imgSurf, g1)
        \<and> surf_w imgSurf \<le> maxTexSize c \<and> surf_h imgSurf \<le> maxTexSize c
        \<and> request (surf_w imgSurf) (surf_h imgSurf) (texPool g1) = Inl e \<longrightarrow>
      e = ResourceError
      \<and> Bitmap_from_file c name g = (Inl ResourceError, SDL_FreeSurface imgSurf g1)
      \<and> surf_id imgSurf \<in> set (liveSurfaces g1)
      \<and> liveSurfaces (SDL_FreeSurface imgSurf g1) = liveSurfaces g
      \<and> (surfaces_wf g \<longrightarrow> surf_id imgSurf \<notin> set (liveSurfaces (SDL_FreeSurface imgSurf g1))))
   \<and> (Bitmap_from_file c name g = (Inl e2, g2) \<longrightarrow>
        liveSurfaces g2 = liveSurfaces g \<and> texPool g2 = texPool g \<and> vram g2 = vram g)"
proof (intro conjI impI)
  show "Bitmap_from_file c name g = (Inl (LoadError txt), g)"
    if "openRead c name = Inr ops \<and> IMG_Load_RW c ops = Inl txt"
    using that by (simp add: Bitmap_from_file_def LoadError_def)
  show "liveSurfaces g2 = liveSurfaces g" "texPool g2 = texPool g" "vram g2 = vram g"
    if "Bitmap_from_file c name g = (Inl e2, g2)"
    using from_file_error_state [OF that] by simp_all
next
  assume a: "openRead c name = Inr ops \<and> IMG_Load_RW c ops = Inr img
        \<and> ensureFormat c (fst (alloc_surface img g)) ABGR8888 (snd (alloc_surface img g))
            = (Some imgSurf, g1)
        \<and> surf_w imgSurf \<le> maxTexSize c \<and> surf_h imgSurf \<le> maxTexSize c
        \<and> request (surf_w imgSurf) (surf_h imgSurf) (texPool g1) = Inl e"
  then have ens: "ensureFormat c (fst (alloc_surface img g)) ABGR8888 (snd (alloc_surface img g))
            = (Some imgSurf, g1)"
    by simp
  from a show e: "e = ResourceError"
    using request_error by blast
  from a e show thrown: "Bitmap_from_file c name g = (Inl ResourceError, SDL_FreeSurface imgSurf g1)"
    by (auto simp: Bitmap_from_file_def split: prod.splits)
  from alloc_then_ensureFormat [OF ens]
  have live: "liveSurfaces g1 = surf_id imgSurf # liveSurfaces g"
    and fresh: "nextSurface g \<le> surf_id imgSurf"
    by simp_all
  from live show "surf_id imgSurf \<in> set (liveSurfaces g1)"
    by simp
  from live show "liveSurfaces (SDL_FreeSurface imgSurf g1) = liveSurfaces g"
    by (simp add: SDL_FreeSurface_def)
  show "surf_id imgSurf \<notin> set (liveSurfaces (SDL_FreeSurface imgSurf g1))" if "surfaces_wf g"
    using that live fresh
    by (auto simp: SDL_FreeSurface_def surfaces_wf_def list_all_iff)
qed

theorem Bitmap_from_file_failures_witness:
  "openRead demo_collab ''broken.png'' = Inr ''broken.png''
   \<and> IMG_Load_RW demo_collab ''broken.png'' = Inl ''Unsupported image format''
   \<and> Bitmap_from_file demo_collab ''broken.png'' demo_gstate
       = (Inl (Exception SDLError ''SDL: Unsupported image format''), demo_gstate)
   \<and> request 2 2 (texPool demo_exhausted) = Inl ResourceError
   \<and> surfaces_wf demo_exhausted
   \<and> fst (Bitmap_from_file demo_collab ''small.png'' demo_exhausted) = Inl ResourceError
   \<and> liveSurfaces (snd (Bitmap_from_file demo_collab ''small.png'' demo_exhausted))
       = liveSurfaces demo_exhausted
   \<and> 7 \<notin> set (liveSurfaces (snd (Bitmap_from_file demo_collab ''small.png'' demo_exhausted)))"
proof -
  let ?img = "\<lparr>surf_id = 0, surf_w = 2, surf_h = 2, surf_format = ABGR8888,
                   surf_pixels = (\<lambda>xy. Vec4 0 1 0 1)\<rparr>"
  let ?g1 = "demo_exhausted\<lparr>liveSurfaces := [7, 3], nextSurface := 8\<rparr>"
  have dec: "openRead demo_collab ''broken.png'' = Inr ''broken.png''"
    "IMG_Load_RW demo_collab ''broken.png'' = Inl ''Unsupported image format''"
    "openRead demo_collab ''small.png'' = Inr ''small.png''"
    "IMG_Load_RW demo_collab ''small.png'' = Inr ?img"
    by (simp_all add: demo_collab_def)
  have ens: "ensureFormat demo_collab (fst (alloc_surface ?img demo_exhausted)) ABGR8888
      (snd (alloc_surface ?img demo_exhausted)) = (Some (?img\<lparr>surf_id := 7\<rparr>), ?g1)"
    by (simp add: ensureFormat_def alloc_surface_def demo_exhausted_def)
  have fits: "surf_w (?img\<lparr>surf_id := 7\<rparr>) \<le> maxTexSize demo_collab"
    "surf_h (?img\<lparr>surf_id := 7\<rparr>) \<le> maxTexSize demo_collab"
    by (simp_all add: demo_collab_def)
  have req: "request 2 2 (texPool demo_exhausted) = Inl ResourceError"
    "request (surf_w (?img\<lparr>surf_id := 7\<rparr>)) (surf_h (?img\<lparr>surf_id := 7\<rparr>)) (texPool ?g1)
       = Inl ResourceError"
    by (simp_all add: request_def demo_exhausted_def)
  have wf: "surfaces_wf demo_exhausted"
    by (simp add: surfaces_wf_def demo_exhausted_def)
  note broken = Bitmap_from_file_failures [of demo_collab "''broken.png''" "''broken.png''"
      "''Unsupported image format''" demo_gstate]
  note full = Bitmap_from_file_failures [of demo_collab "''small.png''" "''small.png''" _
      demo_exhausted ?img "?img\<lparr>surf_id := 7\<rparr>" ?g1 ResourceError]
  from broken dec have 1: "Bitmap_from_file demo_collab ''broken.png'' demo_gstate
       = (Inl (Exception SDLError ''SDL: Unsupported image format''), demo_gstate)"
    by (simp add: LoadError_def)
  from full dec ens fits req wf
  have 2: "Bitmap_from_file demo_collab ''small.png'' demo_exhausted
        = (Inl ResourceError, SDL_FreeSurface (?img\<lparr>surf_id := 7\<rparr>) ?g1)"
    and 3: "liveSurfaces (SDL_FreeSurface (?img\<lparr>surf_id := 7\<rparr>) ?g1) = liveSurfaces demo_exhausted"
    and 4: "surf_id (?img\<lparr>surf_id := 7\<rparr>)
        \<notin> set (liveSurfaces (SDL_FreeSurface (?img\<lparr>surf_id := 7\<rparr>) ?g1))"
    by blast+
  from 4 have 5: "7 \<notin> set (liveSurfaces (SDL_FreeSurface (?img\<lparr>surf_id := 7\<rparr>) ?g1))"
    by simp
  from dec(1,2) 1 req(1) wf 2 3 5 show ?thesis
    by simp
qed

subsection \<open>Hue change\<close>

lemma flush_texPool: "texPool (fst (flush (g, b))) = texPool g"
  by (simp add: flush_def flushPoints_def split: prod.splits)

lemma wrapRange_hue: "0 \<le> wrapRange hue 0 359 \<and> wrapRange hue 0 359 \<le> 359"
  by (simp add: wrapRange_def)

lemma hueChange_changes:
  assumes live: "\<not> disposed b" "megaSurface (p b) = None"
    and hue: "hue mod 360 \<noteq> 0"
    and req: "request (tex_width (tex (p b))) (tex_height (tex (p b))) (texPool g)
        = Inr (newTex, pool1)"
  shows "hueChange c hue (g, b)
    = (Inr (),
       (fst (flush (g, b)))\<lparr>vram := (vram (fst (flush (g, b))))(tex_id newTex :=
           hueQuad c (hueAdjust (wrapRange hue 0 359))
             (tex_width (tex (p b))) (tex_height (tex (p b))) (contents (flush (g, b)))),
         texPool := release (tex (p b)) pool1\<rparr>,
       modified ((snd (flush (g, b)))\<lparr>p := (p (snd (flush (g, b))))\<lparr>tex := newTex\<rparr>\<rparr>))"
proof -
  obtain g1 b1 where f: "flush (g, b) = (g1, b1)"
    by (cases "flush (g, b)")
  have b1: "\<not> disposed b1" "megaSurface (p b1) = None" "tex (p b1) = tex (p b)"
    using flush_live [OF live, of g] f live by simp_all
  have pool: "texPool g1 = texPool g"
    using flush_texPool [of g b] f by simp
  have "hue smod 360 \<noteq> 0"
    using hue by (simp add: smod_eq_0_iff)
  then show ?thesis
    using live f b1 pool req
    by (simp add: hueChange_def width_def height_def contents_def)
qed

text \<open>
  Claim C6. On a live GPU surface \<open>hueChange\<close> returns with nothing changed exactly when
  the number of degrees is a multiple of 360 (so for 0 and for 360). Otherwise it
  flushes, requests a texture of the surface's own width and height from the pool (a
  failure of the pool is passed on), and then: the surface owns the new texture; the
  pixels of the new texture are the result of the hue shader's draw call on the pixels
  of the old texture, with the parameter minus two pi over 360 times the degrees
  normalised by \<open>wrapRange\<close> into the interval from 0 to 359; the old texture is back in
  the pool; and \<open>modified\<close> has been signalled once.
\<close>

theorem hueChange_out_of_place:
  assumes "\<not> disposed b" and "megaSurface (p b) = None"
  shows "(hueChange c hue (g, b) = (Inr (), g, b)) = (hue mod 360 = 0)
    \<and> 0 \<le> wrapRange hue 0 359 \<and> wrapRange hue 0 359 \<le> 359
    \<and> (hue mod 360 \<noteq> 0
         \<and> request (tex_width (tex (p b))) (tex_height (tex (p b))) (texPool g) = Inl e \<longrightarrow>
         outcome (hueChange c hue (g, b)) = Inl e)
    \<and> (hue mod 360 \<noteq> 0
         \<and> request (tex_width (tex (p b))) (tex_height (tex (p b))) (texPool g)
             = Inr (newTex, pool1) \<longrightarrow>
         outcome (hueChange c hue (g, b)) = Inr ()
         \<and> tex (p (bitmap_of (hueChange c hue (g, b)))) = newTex
         \<and> tex_width newTex = tex_width (tex (p b))
         \<and> tex_height newTex = tex_height (tex (p b))
         \<and> contents (state_of (hueChange c hue (g, b)))
             = hueQuad c (- (2 * pi / 360) * real_of_int (wrapRange hue 0 359))
                 (tex_width (tex (p b))) (tex_height (tex (p b))) (contents (flush (g, b)))
         \<and> texPool (gstate_of (hueChange c hue (g, b))) = release (tex (p b)) pool1
         \<and> tex (p b) \<in> set (pooled (texPool (gstate_of (hueChange c hue (g, b)))))
         \<and> pointArray (p (bitmap_of (hueChange c hue (g, b)))) = []
         \<and> modifiedCount (bitmap_of (hueChange c hue (g, b))) = Suc (modifiedCount b))"
proof (intro conjI impI)
  note live = flush_live [OF assms, of g]
  show "(hueChange c hue (g, b) = (Inr (), g, b)) = (hue mod 360 = 0)"
  proof
    assume same: "hueChange c hue (g, b) = (Inr (), g, b)"
    show "hue mod 360 = 0"
    proof (rule ccontr)
      assume hue: "hue mod 360 \<noteq> 0"
      show False
      proof (cases "request (tex_width (tex (p b))) (tex_height (tex (p b))) (texPool g)")
        case (Inl e1)
        have "hue smod 360 \<noteq> 0"
          using hue by (simp add: smod_eq_0_iff)
        then have "fst (hueChange c hue (g, b)) = Inl e1"
          using assms live Inl flush_texPool [of g b]
          by (auto simp: hueChange_def width_def height_def split: prod.splits)
        with same show False by simp
      next
        case (Inr r)
        obtain newTex1 pool2 where "r = (newTex1, pool2)"
          by (cases r)
        with Inr have "modifiedCount (snd (snd (hueChange c hue (g, b))))
            = Suc (modifiedCount b)"
          using live by (simp add: hueChange_changes [OF assms hue] modified_def)
        with same show False by simp
      qed
    qed
  next
    assume "hue mod 360 = 0"
    then show "hueChange c hue (g, b) = (Inr (), g, b)"
      using assms by (simp add: hueChange_def smod_eq_0_iff)
  qed
  show "0 \<le> wrapRange hue 0 359" "wrapRange hue 0 359 \<le> 359"
    using wrapRange_hue [of hue] by simp_all
  show "outcome (hueChange c hue (g, b)) = Inl e"
    if a: "hue mod 360 \<noteq> 0
         \<and> request (tex_width (tex (p b))) (tex_height (tex (p b))) (texPool g) = Inl e"
  proof -
    from a have "hue smod 360 \<noteq> 0"
      by (simp add: smod_eq_0_iff)
    then show ?thesis
      using assms live a flush_texPool [of g b]
      by (auto simp: hueChange_def width_def height_def outcome_def split: prod.splits)
  qed
next
  note live = flush_live [OF assms, of g]
  assume a: "hue mod 360 \<noteq> 0
         \<and> request (tex_width (tex (p b))) (tex_height (tex (p b))) (texPool g)
             = Inr (newTex, pool1)"
  then have hue: "hue mod 360 \<noteq> 0"
    and req: "request (tex_width (tex (p b))) (tex_height (tex (p b))) (texPool g)
             = Inr (newTex, pool1)"
    by simp_all
  note result = hueChange_changes [OF assms hue req, of c]
  show "outcome (hueChange c hue (g, b)) = Inr ()"
    by (simp add: result outcome_def)
  show "tex (p (bitmap_of (hueChange c hue (g, b)))) = newTex"
    by (simp add: result bitmap_of_def)
  show "tex_width newTex = tex_width (tex (p b))" "tex_height newTex = tex_height (tex (p b))"
    using request_dims [OF req] by simp_all
  show "contents (state_of (hueChange c hue (g, b)))
             = hueQuad c (- (2 * pi / 360) * real_of_int (wrapRange hue 0 359))
                 (tex_width (tex (p b))) (tex_height (tex (p b))) (contents (flush (g, b)))"
    by (simp add: result state_of_def contents_def hueAdjust_def)
  show "texPool (gstate_of (hueChange c hue (g, b))) = release (tex (p b)) pool1"
    by (simp add: result gstate_of_def)
  then show "tex (p b) \<in> set (pooled (texPool (gstate_of (hueChange c hue (g, b)))))"
    by (simp add: release_def)
  show "pointArray (p (bitmap_of (hueChange c hue (g, b)))) = []"
    using live by (simp add: result bitmap_of_def)
  show "modifiedCount (bitmap_of (hueChange c hue (g, b))) = Suc (modifiedCount b)"
    using live by (simp add: result bitmap_of_def modified_def)
qed

theorem hueChange_out_of_place_witness:
  "\<not> disposed demo_pending \<and> megaSurface (p demo_pending) = None
   \<and> (360::int) mod 360 = 0
   \<and> hueChange demo_collab 360 (demo_gstate, demo_pending) = (Inr (), demo_gstate, demo_pending)
   \<and> hueChange demo_collab 0 (demo_gstate, demo_pending) = (Inr (), demo_gstate, demo_pending)
   \<and> (450::int) mod 360 \<noteq> 0
   \<and> request (tex_width (tex (p demo_pending))) (tex_height (tex (p demo_pending)))
        (texPool demo_gstate)
       = Inr (\<lparr>tex_id = 1, tex_width = 2, tex_height = 2\<rparr>,
              \<lparr>pooled = [], nextId = 2, budget = 1\<rparr>)
   \<and> outcome (hueChange demo_collab 450 (demo_gstate, demo_pending)) = Inr ()
   \<and> tex (p (bitmap_of (hueChange demo_collab 450 (demo_gstate, demo_pending))))
       = \<lparr>tex_id = 1, tex_width = 2, tex_height = 2\<rparr>
   \<and> tex (p demo_pending)
       \<in> set (pooled (texPool (gstate_of (hueChange demo_collab 450 (demo_gstate, demo_pending)))))
   \<and> wrapRange 450 0 359 = 90"
proof -
  have live: "\<not> disposed demo_pending" "megaSurface (p demo_pending) = None"
    by (simp_all add: demo_pending_def)
  have hues: "(360::int) mod 360 = 0" "(0::int) mod 360 = 0" "(450::int) mod 360 \<noteq> 0"
    "wrapRange 450 0 359 = 90"
    by (simp_all add: wrapRange_def)
  have req: "request (tex_width (tex (p demo_pending))) (tex_height (tex (p demo_pending)))
        (texPool demo_gstate)
       = Inr (\<lparr>tex_id = 1, tex_width = 2, tex_height = 2\<rparr>,
              \<lparr>pooled = [], nextId = 2, budget = 1\<rparr>)"
    by (simp add: request_def demo_gstate_def demo_pending_def)
  note full = hueChange_out_of_place [OF live, of demo_collab 360 demo_gstate ResourceError
      "\<lparr>tex_id = 1, tex_width = 2, tex_height = 2\<rparr>" "\<lparr>pooled = [], nextId = 2, budget = 1\<rparr>"]
  note zero = hueChange_out_of_place [OF live, of demo_collab 0 demo_gstate ResourceError
      "\<lparr>tex_id = 1, tex_width = 2, tex_height = 2\<rparr>" "\<lparr>pooled = [], nextId = 2, budget = 1\<rparr>"]
  note turn = hueChange_out_of_place [OF live, of demo_collab 450 demo_gstate ResourceError
      "\<lparr>tex_id = 1, tex_width = 2, tex_height = 2\<rparr>" "\<lparr>pooled = [], nextId = 2, budget = 1\<rparr>"]
  have 1: "hueChange demo_collab 360 (demo_gstate, demo_pending)
      = (Inr (), demo_gstate, demo_pending)"
    by (rule iffD2 [OF conjunct1 [OF full] hues(1)])
  have 2: "hueChange demo_collab 0 (demo_gstate, demo_pending)
      = (Inr (), demo_gstate, demo_pending)"
    by (rule iffD2 [OF conjunct1 [OF zero] hues(2)])
  from turn hues req have 3: "outcome (hueChange demo_collab 450 (demo_gstate, demo_pending)) = Inr ()"
    "tex (p (bitmap_of (hueChange demo_collab 450 (demo_gstate, demo_pending))))
       = \<lparr>tex_id = 1, tex_width = 2, tex_height = 2\<rparr>"
    "tex (p demo_pending)
       \<in> set (pooled (texPool (gstate_of (hueChange demo_collab 450 (demo_gstate, demo_pending)))))"
    by blast+
  from live hues req 1 2 3 show ?thesis
    by blast
qed

subsection \<open>Text layout\<close>










end
